theory Spec2Isabelle
  imports Main "HOL-Library.Sublist"
begin

section \<open>The Python runtime as far as the agent depends on it\<close>

text \<open>
  The agent of \<^verbatim>\<open>misteragent/react.py\<close> hands text to three things it does not
  define: \<^verbatim>\<open>ast.parse\<close>, \<^verbatim>\<open>exec\<close> and the model client's
  \<^verbatim>\<open>get_completion\<close>. Each of them either returns, raises, or never comes back.
  An exception is modelled by the two facts the agent's handler looks at: whether it is
  an instance of \<^verbatim>\<open>Exception\<close> (only those are caught by
  \<^verbatim>\<open>except Exception\<close>; \<^verbatim>\<open>KeyboardInterrupt\<close>,
  \<^verbatim>\<open>SystemExit\<close> and \<^verbatim>\<open>GeneratorExit\<close> derive from
  \<^verbatim>\<open>BaseException\<close> alone), and what \<^verbatim>\<open>str(e)\<close> does: it calls
  the exception's own \<^verbatim>\<open>__str__\<close>, which executed code may have defined.
\<close>

datatype pyexc = PyExc (is_exception: bool) (exc_str: str_outcome)
  and str_outcome = StrReturns string | StrRaises pyexc | StrHangs

datatype 'a outcome = Returns 'a | Raises pyexc | Hangs

type_synonym 'v scope = "string \<rightharpoonup> 'v"

text \<open>
  The buffer that \<^verbatim>\<open>_act\<close> puts in the place of \<^verbatim>\<open>sys.stdout\<close>, as the
  fragment leaves it. The fragment reaches it as \<^verbatim>\<open>sys.stdout\<close>: it holds the
  text written to it unless the fragment truncated or rewrote it, and it may have been
  closed.
\<close>

datatype capture = Holding string | Closed

text \<open>
  What \<^verbatim>\<open>exec(code, globals, locals)\<close> did: the text it wrote to
  \<^verbatim>\<open>sys.stdout\<close>, the state in which it left the buffer (for a fragment that
  ran to its end), the bindings it left in \<^verbatim>\<open>locals\<close> (the dictionary is
  mutated in place, also by a fragment that raises half way), and how it ended.
\<close>

datatype 'v exec_outcome =
    Finished string capture "'v scope"
  | Failed string "'v scope" pyexc
  | Diverged

record ('v, 'l) runtime =
  ast_parse :: "string \<Rightarrow> pyexc option"
  exec :: "string \<Rightarrow> 'v scope \<Rightarrow> 'v scope \<Rightarrow> 'v exec_outcome"
  get_completion :: "'l \<Rightarrow> string \<Rightarrow> string outcome \<times> 'l"

definition SyntaxError :: "string \<Rightarrow> pyexc" where
  "SyntaxError msg = PyExc True (StrReturns msg)"

definition IndexError :: pyexc where
  "IndexError = PyExc True (StrReturns ''list index out of range'')"

definition ValueError :: "string \<Rightarrow> pyexc" where
  "ValueError msg = PyExc True (StrReturns msg)"

text \<open>\<^verbatim>\<open>StringIO.getvalue()\<close>: the text held, or an error on a closed buffer.\<close>

fun getvalue :: "capture \<Rightarrow> string outcome" where
  "getvalue (Holding text) = Returns text"
| "getvalue Closed = Raises (ValueError ''I/O operation on closed file'')"

subsection \<open>String operations of Python used by the agent\<close>

text \<open>
  A \<open>string\<close> is a list of 8-bit characters, so the text of the model is text whose
  code points lie below 256, one \<open>char\<close> per code point.
\<close>

text \<open>\<^verbatim>\<open>sub in s\<close>: \<^verbatim>\<open>sub\<close> occurs in \<^verbatim>\<open>s\<close> as a contiguous run.\<close>

fun str_contains :: "string \<Rightarrow> string \<Rightarrow> bool" where
  "str_contains sub [] = (sub = [])"
| "str_contains sub (c # cs) = (prefix sub (c # cs) \<or> str_contains sub cs)"

text \<open>
  \<^verbatim>\<open>s.split(sep)\<close>: the pieces between the occurrences of \<^verbatim>\<open>sep\<close>, found
  from the left without overlap. Python raises \<^verbatim>\<open>ValueError\<close> at an empty
  separator; the agent only splits at the literal \<^verbatim>\<open>"ACTION:"\<close>, and the
  function treats an empty separator as one that never matches.
\<close>

function split_from :: "string \<Rightarrow> string \<Rightarrow> string \<Rightarrow> string list" where
  "split_from sep piece [] = [rev piece]"
| "split_from sep piece (c # cs) =
     (if sep \<noteq> [] \<and> prefix sep (c # cs)
      then rev piece # split_from sep [] (drop (length sep) (c # cs))
      else split_from sep (c # piece) cs)"
  by pat_completeness auto
termination
  by (relation "measure (\<lambda>(sep, piece, s). length s)") (auto simp: neq_Nil_conv)

definition str_split :: "string \<Rightarrow> string \<Rightarrow> string list" where
  "str_split sep s = split_from sep [] s"

text \<open>
  \<^verbatim>\<open>str.isspace\<close> on the code points below 256: tab to carriage return, the four
  separators 0x1C to 0x1F, the space, NEL and the no-break space.
\<close>

definition isspace :: "char \<Rightarrow> bool" where
  "isspace c = (of_char c \<in> {9, 10, 11, 12, 13, 28, 29, 30, 31, 32, 133, 160 :: nat})"

definition strip :: "string \<Rightarrow> string" where
  "strip s = rev (dropWhile isspace (rev (dropWhile isspace s)))"

text \<open>\<^verbatim>\<open>sep.join(parts)\<close>.\<close>

fun str_join :: "string \<Rightarrow> string list \<Rightarrow> string" where
  "str_join sep [] = []"
| "str_join sep [x] = x"
| "str_join sep (x # y # ys) = x @ sep @ str_join sep (y # ys)"

text \<open>\<^verbatim>\<open>xs[i]\<close> for a non-negative literal index: out of range raises.\<close>

definition item :: "'a list \<Rightarrow> nat \<Rightarrow> 'a outcome" where
  "item xs i = (if i < length xs then Returns (xs ! i) else Raises IndexError)"

section \<open>The agent\<close>

datatype StepType = THOUGHT | ACTION | OBSERVATION | FINAL_ANSWER

text \<open>The value of each member of the enumeration, a string.\<close>

fun step_value :: "StepType \<Rightarrow> string" where
  "step_value THOUGHT = ''THOUGHT''"
| "step_value ACTION = ''ACTION''"
| "step_value OBSERVATION = ''OBSERVATION''"
| "step_value FINAL_ANSWER = ''FINAL_ANSWER''"

record ReActStep =
  type :: StepType
  content :: string

text \<open>
  Everything a call of the agent reads or writes: the fields of \<^verbatim>\<open>ReActAgent\<close>
  (\<^verbatim>\<open>llm_client\<close> is the state of the model collaborator), the process-wide
  \<^verbatim>\<open>sys.stdout\<close>, and a log of the calls made to the outside, kept so that
  statements about their number and order can be written down.
\<close>

datatype stream = Console | StringIO

datatype 'v event =
    StdoutRedirected
  | Parsed string
  | Executed string "'v scope" "'v scope"
  | StdoutRestored
  | ModelCalled string

record ('v, 'l) agent =
  llm_client :: 'l
  max_steps :: int
  history :: "ReActStep list"
  local_vars :: "'v scope"
  sys_stdout :: stream
  events :: "'v event list"

text \<open>\<^verbatim>\<open>__init__\<close>, in a process whose standard output is the console.\<close>

definition init :: "'l \<Rightarrow> int \<Rightarrow> ('v, 'l) agent" where
  "init client steps =
     \<lparr>llm_client = client, max_steps = steps, history = [], local_vars = Map.empty,
      sys_stdout = Console, events = []\<rparr>"

definition log :: "'v event \<Rightarrow> ('v, 'l) agent \<Rightarrow> ('v, 'l) agent" where
  "log e s = s\<lparr>events := events s @ [e]\<rparr>"

definition add_step :: "StepType \<Rightarrow> string \<Rightarrow> ('v, 'l) agent \<Rightarrow> ('v, 'l) agent" where
  "add_step step_type c s = s\<lparr>history := history s @ [\<lparr>type = step_type, content = c\<rparr>]\<rparr>"

text \<open>The f-string of \<^verbatim>\<open>_format_history\<close>, and the loop that collects one per step.\<close>

definition format_step :: "ReActStep \<Rightarrow> string" where
  "format_step step = step_value (type step) @ '':\<newline>'' @ content step @ ''\<newline>''"

definition format_history :: "('v, 'l) agent \<Rightarrow> string" where
  "format_history s =
     str_join ''\<newline>''
       (foldl (\<lambda>formatted step. formatted @ [format_step step]) [] (history s))"

text \<open>
  \<^verbatim>\<open>_reason\<close>: one model call, then the split at \<^verbatim>\<open>"ACTION:"\<close>. The
  response is split twice in the source, once for each index.
\<close>

definition split_response :: "string \<Rightarrow> (string \<times> string option) outcome" where
  "split_response response =
     (if str_contains ''ACTION:'' response then
        (case item (str_split ''ACTION:'' response) 0 of
           Returns part0 \<Rightarrow>
             (case item (str_split ''ACTION:'' response) 1 of
                Returns part1 \<Rightarrow> Returns (strip part0, Some (strip part1))
              | Raises e \<Rightarrow> Raises e
              | Hangs \<Rightarrow> Hangs)
         | Raises e \<Rightarrow> Raises e
         | Hangs \<Rightarrow> Hangs)
      else Returns (response, None))"

definition reason ::
  "('v, 'l) runtime \<Rightarrow> string \<Rightarrow> string \<Rightarrow> ('v, 'l) agent
     \<Rightarrow> (string \<times> string option) outcome \<times> ('v, 'l) agent" where
  "reason rt task context s =
     (case get_completion rt (llm_client s) context of
        (answer, client') \<Rightarrow>
          (let s' = log (ModelCalled context) (s\<lparr>llm_client := client'\<rparr>) in
           case answer of
             Returns response \<Rightarrow> (split_response response, s')
           | Raises e \<Rightarrow> (Raises e, s')
           | Hangs \<Rightarrow> (Hangs, s')))"

text \<open>
  \<^verbatim>\<open>_act\<close>. The handler \<^verbatim>\<open>except Exception as e\<close> takes an exception that is
  an instance of \<^verbatim>\<open>Exception\<close> and formats \<^verbatim>\<open>str(e)\<close>; any other
  exception, and one raised by \<^verbatim>\<open>str(e)\<close> itself, leaves \<^verbatim>\<open>_act\<close>.
  The call \<^verbatim>\<open>redirected_output.getvalue()\<close> stands inside the
  \<^verbatim>\<open>try\<close>, so what it raises goes to the same handler. The
  \<^verbatim>\<open>finally\<close> clause runs on each of these ways out.
\<close>

definition restore :: "stream \<Rightarrow> ('v, 'l) agent \<Rightarrow> ('v, 'l) agent" where
  "restore old_stdout s = log StdoutRestored (s\<lparr>sys_stdout := old_stdout\<rparr>)"

definition handle ::
  "pyexc \<Rightarrow> stream \<Rightarrow> ('v, 'l) agent \<Rightarrow> string outcome \<times> ('v, 'l) agent" where
  "handle e old_stdout s =
     (if is_exception e then
        (case exc_str e of
           StrReturns msg \<Rightarrow> (Returns (''Error executing code: '' @ msg), restore old_stdout s)
         | StrRaises e' \<Rightarrow> (Raises e', restore old_stdout s)
         | StrHangs \<Rightarrow> (Hangs, s))
      else (Raises e, restore old_stdout s))"

definition act ::
  "('v, 'l) runtime \<Rightarrow> string \<Rightarrow> ('v, 'l) agent \<Rightarrow> string outcome \<times> ('v, 'l) agent" where
  "act rt code s =
     (let old_stdout = sys_stdout s;
          s1 = log StdoutRedirected (s\<lparr>sys_stdout := StringIO\<rparr>);
          s2 = log (Parsed code) s1
      in case ast_parse rt code of
           Some e \<Rightarrow> handle e old_stdout s2
         | None \<Rightarrow>
             (let s3 = log (Executed code Map.empty (local_vars s2)) s2
              in case exec rt code Map.empty (local_vars s2) of
                   Finished written redirected_output locals' \<Rightarrow>
                     (case getvalue redirected_output of
                        Returns output \<Rightarrow>
                          (Returns (if output \<noteq> [] then output
                                    else ''Code executed successfully with no output''),
                           restore old_stdout (s3\<lparr>local_vars := locals'\<rparr>))
                      | Raises e \<Rightarrow> handle e old_stdout (s3\<lparr>local_vars := locals'\<rparr>)
                      | Hangs \<Rightarrow> (Hangs, s3\<lparr>local_vars := locals'\<rparr>))
                 | Failed output locals' e \<Rightarrow>
                     handle e old_stdout (s3\<lparr>local_vars := locals'\<rparr>)
                 | Diverged \<Rightarrow> (Hangs, s3)))"

text \<open>\<^verbatim>\<open>run\<close>: the prompt, and the loop over \<^verbatim>\<open>range(self.max_steps)\<close>.\<close>

definition prompt :: "string \<Rightarrow> string" where
  "prompt task =
     ''Task: '' @ task @ ''\<newline>\<newline>'' @
     ''Solve this step by step:\<newline>'' @
     ''1. Think about the solution\<newline>'' @
     ''2. Generate Python code to implement it\<newline>'' @
     ''3. Observe the results and iterate if needed\<newline>\<newline>'' @
     ''Use these markers:\<newline>'' @
     ''THOUGHT: for explaining your reasoning\<newline>'' @
     ''ACTION: for Python code to execute\<newline>'' @
     ''FINAL ANSWER: when you have solved the task''"

fun run_loop ::
  "('v, 'l) runtime \<Rightarrow> string \<Rightarrow> string \<Rightarrow> nat \<Rightarrow> ('v, 'l) agent
     \<Rightarrow> string outcome \<times> ('v, 'l) agent" where
  "run_loop rt task p 0 s = (Returns ''Maximum steps reached without finding solution'', s)"
| "run_loop rt task p (Suc n) s =
     (let current_context = p @ ''\<newline>\<newline>'' @ format_history s
      in case reason rt task current_context s of
           (Returns (thought, code), s1) \<Rightarrow>
             if str_contains ''FINAL ANSWER:'' thought
             then (Returns thought, add_step FINAL_ANSWER thought s1)
             else
               (let s2 = add_step THOUGHT thought s1
                in case code of
                     None \<Rightarrow> run_loop rt task p n s2
                   | Some c \<Rightarrow>
                       (case act rt c (add_step ACTION c s2) of
                          (Returns observation, s3) \<Rightarrow>
                            run_loop rt task p n (add_step OBSERVATION observation s3)
                        | (Raises e, s3) \<Rightarrow> (Raises e, s3)
                        | (Hangs, s3) \<Rightarrow> (Hangs, s3)))
         | (Raises e, s1) \<Rightarrow> (Raises e, s1)
         | (Hangs, s1) \<Rightarrow> (Hangs, s1))"

definition run ::
  "('v, 'l) runtime \<Rightarrow> string \<Rightarrow> ('v, 'l) agent \<Rightarrow> string outcome \<times> ('v, 'l) agent" where
  "run rt task s = run_loop rt task (prompt task) (nat (max_steps s)) s"

section \<open>Vocabulary of the statements\<close>

text \<open>The events a call added to the log.\<close>

definition new_events :: "('v, 'l) agent \<Rightarrow> ('v, 'l) agent \<Rightarrow> 'v event list" where
  "new_events s s' = drop (length (events s)) (events s')"

fun is_model_call :: "'v event \<Rightarrow> bool" where
  "is_model_call (ModelCalled context) = True"
| "is_model_call e = False"

fun is_execution :: "'v event \<Rightarrow> bool" where
  "is_execution (Executed code globals locals) = True"
| "is_execution e = False"

definition model_calls :: "'v event list \<Rightarrow> nat" where
  "model_calls evs = length (filter is_model_call evs)"

text \<open>
  The exception that syntax validation or execution of a fragment raises, if any, and
  whether the two come back to \<^verbatim>\<open>_act\<close> at all.
\<close>

definition raised :: "('v, 'l) runtime \<Rightarrow> string \<Rightarrow> 'v scope \<Rightarrow> pyexc option" where
  "raised rt code locals =
     (case ast_parse rt code of
        Some e \<Rightarrow> Some e
      | None \<Rightarrow>
          (case exec rt code Map.empty locals of
             Finished written buffer locals' \<Rightarrow> None
           | Failed output locals' e \<Rightarrow> Some e
           | Diverged \<Rightarrow> None))"

definition comes_back :: "('v, 'l) runtime \<Rightarrow> string \<Rightarrow> 'v scope \<Rightarrow> bool" where
  "comes_back rt code locals =
     (case ast_parse rt code of
        Some e \<Rightarrow> True
      | None \<Rightarrow> exec rt code Map.empty locals \<noteq> Diverged)"

text \<open>An exception that the handler of \<^verbatim>\<open>_act\<close> turns into an observation.\<close>

definition printable :: "pyexc \<Rightarrow> bool" where
  "printable e =
     (is_exception e \<and>
      (case exc_str e of
         StrReturns msg \<Rightarrow> True
       | StrRaises e' \<Rightarrow> False
       | StrHangs \<Rightarrow> False))"

definition contained :: "('v, 'l) runtime \<Rightarrow> string \<Rightarrow> 'v scope \<Rightarrow> bool" where
  "contained rt code locals =
     (comes_back rt code locals \<and>
      (case raised rt code locals of None \<Rightarrow> True | Some e \<Rightarrow> printable e))"

text \<open>
  The text before the first occurrence of a marker (the whole text when there is none)
  and the text after it, in the words of the specification of the splitter.
\<close>

fun before_first :: "string \<Rightarrow> string \<Rightarrow> string" where
  "before_first sep [] = []"
| "before_first sep (c # cs) = (if prefix sep (c # cs) then [] else c # before_first sep cs)"

fun after_first :: "string \<Rightarrow> string \<Rightarrow> string" where
  "after_first sep [] = []"
| "after_first sep (c # cs) =
     (if prefix sep (c # cs) then drop (length sep) (c # cs) else after_first sep cs)"

text \<open>
  The rendering of a transcript in the words of the specification: one block per step,
  in order, with an empty line between two blocks.
\<close>

definition block :: "StepType \<Rightarrow> string \<Rightarrow> string" where
  "block kind text = step_value kind @ '':\<newline>'' @ text @ ''\<newline>''"

fun render :: "ReActStep list \<Rightarrow> string" where
  "render [] = []"
| "render [step] = block (type step) (content step)"
| "render (step # steps) = block (type step) (content step) @ ''\<newline>'' @ render steps"

text \<open>
  The scope that an execution leaves, and the check that a sequence of logged executions
  hands the scope on: each one gets empty globals and, as its locals, the scope the one
  before it left.
\<close>

definition scope_after :: "'v exec_outcome \<Rightarrow> 'v scope \<Rightarrow> 'v scope" where
  "scope_after result locals =
     (case result of
        Finished written buffer locals' \<Rightarrow> locals'
      | Failed output locals' e \<Rightarrow> locals'
      | Diverged \<Rightarrow> locals)"

fun scope_threaded :: "('v, 'l) runtime \<Rightarrow> 'v scope \<Rightarrow> 'v event list \<Rightarrow> bool" where
  "scope_threaded rt current [] = True"
| "scope_threaded rt current (Executed code globals locals # evs) =
     (globals = Map.empty \<and> locals = current \<and>
      scope_threaded rt (scope_after (exec rt code globals locals) locals) evs)"
| "scope_threaded rt current (e # evs) = scope_threaded rt current evs"

fun final_scope :: "('v, 'l) runtime \<Rightarrow> 'v scope \<Rightarrow> 'v event list \<Rightarrow> 'v scope" where
  "final_scope rt current [] = current"
| "final_scope rt current (Executed code globals locals # evs) =
     final_scope rt (scope_after (exec rt code globals locals) locals) evs"
| "final_scope rt current (e # evs) = final_scope rt current evs"

text \<open>
  A model collaborator that always answers, never with the final-answer marker in the
  thought portion; and one whose code portions all run to an observation.
\<close>

definition never_final :: "('v, 'l) runtime \<Rightarrow> bool" where
  "never_final rt =
     (\<forall>client context.
        case get_completion rt client context of
          (Returns response, client') \<Rightarrow>
            (case split_response response of
               Returns (thought, code) \<Rightarrow> \<not> str_contains ''FINAL ANSWER:'' thought
             | Raises e \<Rightarrow> False
             | Hangs \<Rightarrow> False)
        | (Raises e, client') \<Rightarrow> False
        | (Hangs, client') \<Rightarrow> False)"

definition actions_contained :: "('v, 'l) runtime \<Rightarrow> bool" where
  "actions_contained rt =
     (\<forall>client context response client' thought code locals.
        get_completion rt client context = (Returns response, client') \<longrightarrow>
        split_response response = Returns (thought, Some code) \<longrightarrow>
        contained rt code locals)"

section \<open>A small runtime for concrete runs\<close>

text \<open>
  What CPython 3.11 does on a handful of fragments, as a table: the exceptions with the
  text \<^verbatim>\<open>str\<close> gives for them, the output and the bindings. A fragment outside
  the table is treated as \<^verbatim>\<open>pass\<close>. Values are integers, classes, functions
  and modules.
\<close>

datatype pyval = IntVal int | ClassVal string | FunctionVal string | ModuleVal string

fun type_name :: "pyval \<Rightarrow> string" where
  "type_name (IntVal v) = ''int''"
| "type_name (ClassVal c) = ''type''"
| "type_name (FunctionVal f) = ''function''"
| "type_name (ModuleVal m) = ''module''"

definition KeyboardInterrupt :: pyexc where
  "KeyboardInterrupt = PyExc False (StrReturns [])"

definition SystemExit :: pyexc where
  "SystemExit = PyExc False (StrReturns [])"

definition ZeroDivisionError :: pyexc where
  "ZeroDivisionError = PyExc True (StrReturns ''division by zero'')"

definition NameError :: "string \<Rightarrow> pyexc" where
  "NameError name =
     PyExc True (StrReturns (''name '' @ [CHR 0x27] @ name @ [CHR 0x27] @ '' is not defined''))"

definition TypeError :: "string \<Rightarrow> pyexc" where
  "TypeError msg = PyExc True (StrReturns msg)"

definition KeyError :: "string \<Rightarrow> pyexc" where
  "KeyError key_repr = PyExc True (StrReturns key_repr)"

definition StopIteration :: pyexc where
  "StopIteration = PyExc True (StrReturns [])"

definition demo_parse :: "string \<Rightarrow> pyexc option" where
  "demo_parse code =
     (if code = ''1 +'' then Some (SyntaxError ''invalid syntax (<unknown>, line 1)'')
      else None)"

definition demo_exec :: "string \<Rightarrow> pyval scope \<Rightarrow> pyval scope \<Rightarrow> pyval exec_outcome" where
  "demo_exec code globals locals =
     (if code = ''x = 1'' then Finished [] (Holding []) (locals(''x'' \<mapsto> IntVal 1))
      else if code = ''x = x + 1'' then
        (case locals ''x'' of
           None \<Rightarrow> Failed [] locals (NameError ''x'')
         | Some (IntVal v) \<Rightarrow> Finished [] (Holding []) (locals(''x'' \<mapsto> IntVal (v + 1)))
         | Some other \<Rightarrow>
             Failed [] locals
               (TypeError (''unsupported operand type(s) for +: '' @ [CHR 0x27] @ type_name other
                  @ [CHR 0x27] @ '' and '' @ [CHR 0x27] @ ''int'' @ [CHR 0x27])))
      else if code = ''print(1)'' then Finished ''1\<newline>'' (Holding ''1\<newline>'') locals
      else if code = ''1/0'' then Failed [] locals ZeroDivisionError
      else if code = ''raise KeyboardInterrupt'' then Failed [] locals KeyboardInterrupt
      else if code = ''raise SystemExit'' then Failed [] locals SystemExit
      else if code = ''print(1)\<newline>raise KeyboardInterrupt''
        then Failed ''1\<newline>'' locals KeyboardInterrupt
      else if code = ''print('boom')\<newline>raise ValueError('boom' + chr(10))''
        then Failed ''boom\<newline>'' locals (ValueError ''boom\<newline>'')
      else if code = ''class E(Exception):\<newline>    def __str__(self):\<newline>        raise KeyError(0)\<newline>raise E()''
        then Failed [] (locals(''E'' \<mapsto> ClassVal ''E'')) (PyExc True (StrRaises (KeyError ''0'')))
      else if code = ''def f():\<newline>    return x\<newline>print(f())''
        then Failed [] (locals(''f'' \<mapsto> FunctionVal ''f'')) (NameError ''x'')
      else if code = ''import sys\<newline>sys.stdout.close()''
        then Finished [] Closed (locals(''sys'' \<mapsto> ModuleVal ''sys''))
      else if code = ''print(1)\<newline>import sys\<newline>sys.stdout.truncate(0)''
        then Finished ''1\<newline>'' (Holding []) (locals(''sys'' \<mapsto> ModuleVal ''sys''))
      else Finished [] (Holding []) locals)"

text \<open>
  Two model collaborators: one that gives the same response to every call, and one that
  reads its responses off a script (and raises when the script is used up).
\<close>

definition constant_client :: "string \<Rightarrow> unit \<Rightarrow> string \<Rightarrow> string outcome \<times> unit" where
  "constant_client response client context = (Returns response, ())"

fun scripted_client :: "string list \<Rightarrow> string \<Rightarrow> string outcome \<times> string list" where
  "scripted_client [] context = (Raises StopIteration, [])"
| "scripted_client (response # script) context = (Returns response, script)"

definition demo_runtime ::
  "('l \<Rightarrow> string \<Rightarrow> string outcome \<times> 'l) \<Rightarrow> (pyval, 'l) runtime" where
  "demo_runtime client =
     \<lparr>ast_parse = demo_parse, exec = demo_exec, get_completion = client\<rparr>"

section \<open>The transcript\<close>

lemma collect_blocks:
  "foldl (\<lambda>formatted step. formatted @ [f step]) acc steps = acc @ map f steps"
  by (induction steps arbitrary: acc) simp_all

lemma format_step_block: "format_step step = block (type step) (content step)"
  by (simp add: format_step_def block_def)

lemma str_join_blocks: "str_join ''\<newline>'' (map format_step steps) = render steps"
  by (induction steps rule: render.induct) (simp_all add: format_step_block)

lemma render_snoc:
  "render (steps @ [step]) =
     (if steps = [] then block (type step) (content step)
      else render steps @ ''\<newline>'' @ block (type step) (content step))"
  by (induction steps rule: render.induct) simp_all

lemma format_history_eq: "format_history s = render (history s)"
  by (simp add: format_history_def collect_blocks str_join_blocks)

text \<open>
  C9. \<^verbatim>\<open>_format_history\<close> gives one block per step, in the order in which the
  steps were appended, each block the value of the step's kind, a colon, a line break, the
  text and a line break, with an empty line between two blocks; it is a function of the
  history alone. The kinds of the source are \<^verbatim>\<open>THOUGHT\<close>, \<^verbatim>\<open>ACTION\<close>,
  \<^verbatim>\<open>OBSERVATION\<close> and \<^verbatim>\<open>FINAL_ANSWER\<close>; for a reasoning step with
  text a, a code step with text b and an observation with text c, the three blocks come
  in that order, each under the name of its kind.
\<close>

theorem format_history_render:
  "format_history s = render (history s)
   \<and> format_history (add_step kind text s) =
       (if history s = [] then block kind text
        else format_history s @ ''\<newline>'' @ block kind text)
   \<and> format_history
         (add_step OBSERVATION ''c'' (add_step ACTION ''b'' (add_step THOUGHT ''a''
            (s\<lparr>history := []\<rparr>))))
       = ''THOUGHT:\<newline>a\<newline>\<newline>ACTION:\<newline>b\<newline>\<newline>OBSERVATION:\<newline>c\<newline>''"
proof (intro conjI)
  show "format_history s = render (history s)"
    by (rule format_history_eq)
  show "format_history (add_step kind text s) =
       (if history s = [] then block kind text
        else format_history s @ ''\<newline>'' @ block kind text)"
    by (simp add: format_history_eq add_step_def render_snoc)
  show "format_history
         (add_step OBSERVATION ''c'' (add_step ACTION ''b'' (add_step THOUGHT ''a''
            (s\<lparr>history := []\<rparr>))))
       = ''THOUGHT:\<newline>a\<newline>\<newline>ACTION:\<newline>b\<newline>\<newline>OBSERVATION:\<newline>c\<newline>''"
    by (simp add: format_history_eq add_step_def block_def)
qed

section \<open>The response splitter\<close>

text \<open>
  A text that contains the marker is the text before its first occurrence, the marker, and
  the text after it; and \<^verbatim>\<open>split\<close> gives the text before the first occurrence,
  then the pieces of the rest.
\<close>

lemma before_first_absent: "\<not> str_contains sep s \<Longrightarrow> before_first sep s = s"
  by (induction s) auto

lemma first_occurrence:
  "str_contains sep s \<Longrightarrow> s = before_first sep s @ sep @ after_first sep s"
proof (induction s)
  case Nil
  then show ?case by simp
next
  case (Cons c cs)
  then show ?case by (auto simp: prefix_def)
qed

lemma first_occurrence_least:
  "i < length (before_first sep s) \<Longrightarrow> \<not> prefix sep (drop i s)"
proof (induction s arbitrary: i)
  case Nil
  then show ?case by simp
next
  case (Cons c cs)
  then show ?case by (cases i) (auto split: if_splits)
qed

lemma split_from_first:
  "sep \<noteq> [] \<Longrightarrow>
   split_from sep piece s =
     (if str_contains sep s
      then (rev piece @ before_first sep s) # split_from sep [] (after_first sep s)
      else [rev piece @ s])"
proof (induction sep piece s rule: split_from.induct)
  case (1 sep piece)
  then show ?case by simp
next
  case (2 sep piece c cs)
  then show ?case by auto
qed

lemma str_split_first:
  "sep \<noteq> [] \<Longrightarrow> str_contains sep s \<Longrightarrow>
   str_split sep s = before_first sep s # str_split sep (after_first sep s)"
  by (simp add: str_split_def split_from_first [of sep "[]" s])

lemma str_split_head:
  "sep \<noteq> [] \<Longrightarrow> \<exists>pieces. str_split sep s = before_first sep s # pieces"
  by (simp add: str_split_def split_from_first [of sep "[]" s] before_first_absent)

lemma split_response_eq:
  "split_response response =
     Returns (if str_contains ''ACTION:'' response
              then (strip (before_first ''ACTION:'' response),
                    Some (strip (before_first ''ACTION:'' (after_first ''ACTION:'' response))))
              else (response, None))"
proof (cases "str_contains ''ACTION:'' response")
  case True
  obtain pieces where
    "str_split ''ACTION:'' (after_first ''ACTION:'' response)
       = before_first ''ACTION:'' (after_first ''ACTION:'' response) # pieces"
    using str_split_head [of "''ACTION:''"] by blast
  with True have
    "str_split ''ACTION:'' response
       = before_first ''ACTION:'' response
           # before_first ''ACTION:'' (after_first ''ACTION:'' response) # pieces"
    by (simp add: str_split_first)
  with True show ?thesis
    by (simp add: split_response_def item_def)
next
  case False
  then show ?thesis by (simp add: split_response_def)
qed

text \<open>
  C2, as amended. For a response that contains \<^verbatim>\<open>"ACTION:"\<close>, the thought is the
  text before the first occurrence, trimmed, and the code is the text between the first
  occurrence and the next one, trimmed: all of the text after the first occurrence when
  the marker occurs once. For a response without the marker, the thought is the whole
  response and there is no code.
\<close>

theorem reason_split:
  assumes "get_completion rt (llm_client s) context = (Returns response, client')"
  shows "(str_contains ''ACTION:'' response \<longrightarrow>
            fst (reason rt task context s) =
              Returns (strip (before_first ''ACTION:'' response),
                       Some (strip (before_first ''ACTION:'' (after_first ''ACTION:'' response)))))
       \<and> (str_contains ''ACTION:'' response \<longrightarrow>
            \<not> str_contains ''ACTION:'' (after_first ''ACTION:'' response) \<longrightarrow>
            fst (reason rt task context s) =
              Returns (strip (before_first ''ACTION:'' response),
                       Some (strip (after_first ''ACTION:'' response))))
       \<and> (\<not> str_contains ''ACTION:'' response \<longrightarrow>
            fst (reason rt task context s) = Returns (response, None))"
  using assms by (simp add: reason_def Let_def split_response_eq before_first_absent)

theorem reason_split_witness:
  "fst (reason (demo_runtime scripted_client) ''task'' ''context''
         (init [''Think X\<newline>ACTION:\<newline>print(1)''] 10))
     = Returns (''Think X'', Some ''print(1)'')
   \<and> fst (reason (demo_runtime scripted_client) ''task'' ''context''
         (init [''Just thinking''] 10))
     = Returns (''Just thinking'', None)"
proof -
  let ?rt = "demo_runtime scripted_client"
  let ?a = "''Think X\<newline>ACTION:\<newline>print(1)''"
  let ?b = "''Just thinking''"
  have a: "get_completion ?rt (llm_client (init [?a] 10 :: (pyval, string list) agent)) ''context''
             = (Returns ?a, [])"
    by (simp add: demo_runtime_def init_def)
  have b: "get_completion ?rt (llm_client (init [?b] 10 :: (pyval, string list) agent)) ''context''
             = (Returns ?b, [])"
    by (simp add: demo_runtime_def init_def)
  show ?thesis
    using reason_split [OF a, of "''task''"] reason_split [OF b, of "''task''"]
    by (simp add: strip_def isspace_def)
qed

text \<open>
  C2 as stated fails when the marker occurs twice: index 1 of the split is the piece
  between the first two occurrences, not the text after the first one.
\<close>

theorem reason_split_counterexample:
  "str_contains ''ACTION:'' ''a ACTION: b ACTION: c''
   \<and> fst (reason (demo_runtime scripted_client) ''task'' ''context''
         (init [''a ACTION: b ACTION: c''] 10))
     = Returns (''a'', Some ''b'')
   \<and> strip (after_first ''ACTION:'' ''a ACTION: b ACTION: c'') = ''b ACTION: c''"
  by (simp add: reason_def Let_def demo_runtime_def init_def log_def split_response_def
      str_split_def item_def strip_def isspace_def)

section \<open>The code executor\<close>

subsection \<open>The ways through \<^verbatim>\<open>_act\<close>\<close>

lemma act_parse_raises:
  "ast_parse rt code = Some e \<Longrightarrow>
   act rt code s =
     handle e (sys_stdout s)
       (log (Parsed code) (log StdoutRedirected (s\<lparr>sys_stdout := StringIO\<rparr>)))"
  by (simp add: act_def Let_def)

lemma act_finished:
  "ast_parse rt code = None \<Longrightarrow>
   exec rt code Map.empty (local_vars s) = Finished written (Holding output) locals' \<Longrightarrow>
   act rt code s =
     (Returns (if output \<noteq> [] then output else ''Code executed successfully with no output''),
      restore (sys_stdout s)
        (log (Executed code Map.empty (local_vars s))
           (log (Parsed code) (log StdoutRedirected (s\<lparr>sys_stdout := StringIO\<rparr>)))
         \<lparr>local_vars := locals'\<rparr>))"
  by (simp add: act_def Let_def log_def)

lemma act_closed:
  "ast_parse rt code = None \<Longrightarrow>
   exec rt code Map.empty (local_vars s) = Finished written Closed locals' \<Longrightarrow>
   act rt code s =
     handle (ValueError ''I/O operation on closed file'') (sys_stdout s)
       (log (Executed code Map.empty (local_vars s))
          (log (Parsed code) (log StdoutRedirected (s\<lparr>sys_stdout := StringIO\<rparr>)))
        \<lparr>local_vars := locals'\<rparr>)"
  by (simp add: act_def Let_def log_def)

lemma act_failed:
  "ast_parse rt code = None \<Longrightarrow>
   exec rt code Map.empty (local_vars s) = Failed output locals' e \<Longrightarrow>
   act rt code s =
     handle e (sys_stdout s)
       (log (Executed code Map.empty (local_vars s))
          (log (Parsed code) (log StdoutRedirected (s\<lparr>sys_stdout := StringIO\<rparr>)))
        \<lparr>local_vars := locals'\<rparr>)"
  by (simp add: act_def Let_def log_def)

lemma act_diverged:
  "ast_parse rt code = None \<Longrightarrow>
   exec rt code Map.empty (local_vars s) = Diverged \<Longrightarrow>
   act rt code s =
     (Hangs,
      log (Executed code Map.empty (local_vars s))
        (log (Parsed code) (log StdoutRedirected (s\<lparr>sys_stdout := StringIO\<rparr>))))"
  by (simp add: act_def Let_def log_def)

lemma handle_printable:
  "is_exception e \<Longrightarrow> exc_str e = StrReturns msg \<Longrightarrow>
   handle e old s = (Returns (''Error executing code: '' @ msg), restore old s)"
  by (simp add: handle_def)

lemma handle_escapes:
  "\<not> is_exception e \<Longrightarrow> handle e old s = (Raises e, restore old s)"
  by (simp add: handle_def)

lemma act_closed_observation:
  "ast_parse rt code = None \<Longrightarrow>
   exec rt code Map.empty (local_vars s) = Finished written Closed locals' \<Longrightarrow>
   fst (act rt code s) = Returns ''Error executing code: I/O operation on closed file''"
  by (simp add: act_closed handle_printable ValueError_def)


lemmas demo_defs = demo_runtime_def demo_parse_def demo_exec_def constant_client_def init_def
  KeyboardInterrupt_def SystemExit_def ZeroDivisionError_def NameError_def ValueError_def
  KeyError_def SyntaxError_def

lemmas act_defs = act_def handle_def restore_def log_def Let_def

subsection \<open>Containment of failures\<close>

text \<open>
  C1, as amended. Whenever syntax validation and execution of the fragment come back and
  the exception they raise, if any, is an instance of \<^verbatim>\<open>Exception\<close> whose
  \<^verbatim>\<open>str\<close> returns, \<^verbatim>\<open>_act\<close> returns a string; and the exception raised is
  turned into \<^verbatim>\<open>"Error executing code: "\<close> followed by its text. An exception
  raised by validation or execution that is not an instance of \<^verbatim>\<open>Exception\<close>
  is not caught: \<^verbatim>\<open>_act\<close> raises it.
\<close>

theorem act_contains_exceptions:
  "(contained rt code (local_vars s) \<longrightarrow>
      (\<exists>observation. fst (act rt code s) = Returns observation)
    \<and> (\<forall>e msg. raised rt code (local_vars s) = Some e \<longrightarrow> exc_str e = StrReturns msg \<longrightarrow>
          fst (act rt code s) = Returns (''Error executing code: '' @ msg)))
   \<and> (\<forall>e. raised rt code (local_vars s) = Some e \<longrightarrow> \<not> is_exception e \<longrightarrow>
          fst (act rt code s) = Raises e)"
proof (cases "ast_parse rt code")
  case (Some e)
  have "printable e \<Longrightarrow> \<exists>msg. is_exception e \<and> exc_str e = StrReturns msg"
    by (auto simp: printable_def split: str_outcome.splits)
  with Some show ?thesis
    by (auto simp: act_parse_raises handle_printable handle_escapes raised_def contained_def)
next
  case None
  show ?thesis
  proof (cases "exec rt code Map.empty (local_vars s)")
    case (Finished written buffer locals')
    with None show ?thesis
      by (cases buffer) (simp_all add: act_finished act_closed_observation raised_def)
  next
    case (Failed written locals' e)
    have "printable e \<Longrightarrow> \<exists>msg. is_exception e \<and> exc_str e = StrReturns msg"
      by (auto simp: printable_def split: str_outcome.splits)
    with None Failed show ?thesis
      by (auto simp: act_failed handle_printable handle_escapes raised_def contained_def)
  next
    case Diverged
    with None show ?thesis
      by (simp add: contained_def comes_back_def raised_def)
  qed
qed

text \<open>
  At \<^verbatim>\<open>1/0\<close> the observation is the text of the
  \<^verbatim>\<open>ZeroDivisionError\<close>; at \<^verbatim>\<open>raise SystemExit\<close> the call raises.
\<close>

theorem act_contains_exceptions_witness:
  "contained (demo_runtime (constant_client [])) ''1/0'' (local_vars (init () 10))
   \<and> raised (demo_runtime (constant_client [])) ''1/0'' (local_vars (init () 10))
       = Some ZeroDivisionError
   \<and> fst (act (demo_runtime (constant_client [])) ''1/0'' (init () 10))
       = Returns ''Error executing code: division by zero''
   \<and> raised (demo_runtime (constant_client [])) ''raise SystemExit'' (local_vars (init () 10))
       = Some SystemExit
   \<and> \<not> is_exception SystemExit
   \<and> fst (act (demo_runtime (constant_client [])) ''raise SystemExit'' (init () 10))
       = Raises SystemExit"
proof -
  let ?rt = "demo_runtime (constant_client [])"
  let ?s = "init () 10 :: (pyval, unit) agent"
  have r: "raised ?rt ''1/0'' (local_vars ?s) = Some ZeroDivisionError"
    by (simp add: raised_def demo_runtime_def demo_parse_def demo_exec_def)
  have c: "contained ?rt ''1/0'' (local_vars ?s)"
    by (simp add: contained_def comes_back_def raised_def printable_def demo_runtime_def
        demo_parse_def demo_exec_def ZeroDivisionError_def)
  have m: "exc_str ZeroDivisionError = StrReturns ''division by zero''"
    by (simp add: ZeroDivisionError_def)
  have x: "raised ?rt ''raise SystemExit'' (local_vars ?s) = Some SystemExit"
    by (simp add: raised_def demo_runtime_def demo_parse_def demo_exec_def)
  have n: "\<not> is_exception SystemExit"
    by (simp add: SystemExit_def)
  show ?thesis
    using c r m x n act_contains_exceptions [of ?rt "''1/0''" ?s]
      act_contains_exceptions [of ?rt "''raise SystemExit''" ?s]
    by simp
qed

text \<open>
  C1 as stated fails: \<^verbatim>\<open>KeyboardInterrupt\<close> is not an instance of
  \<^verbatim>\<open>Exception\<close>, so \<^verbatim>\<open>except Exception\<close> lets it through and
  \<^verbatim>\<open>_act\<close> raises it; and an exception class whose \<^verbatim>\<open>__str__\<close> raises
  makes the handler itself raise.
\<close>

theorem act_contains_exceptions_counterexample:
  "fst (act (demo_runtime (constant_client [])) ''raise KeyboardInterrupt'' (init () 10))
     = Raises KeyboardInterrupt
   \<and> fst (act (demo_runtime (constant_client []))
        ''class E(Exception):\<newline>    def __str__(self):\<newline>        raise KeyError(0)\<newline>raise E()''
        (init () 10))
     = Raises (KeyError ''0'')"
  by (simp add: demo_defs act_defs)

text \<open>
  C6. A fragment with a syntax error (\<^verbatim>\<open>ast.parse\<close> raises
  \<^verbatim>\<open>SyntaxError\<close>) gives an observation that starts with
  \<^verbatim>\<open>"Error executing code:"\<close>, and the variable mapping is what it was.
\<close>

theorem act_syntax_error:
  assumes "ast_parse rt code = Some (SyntaxError msg)"
  shows "fst (act rt code s) = Returns (''Error executing code: '' @ msg)
       \<and> prefix ''Error executing code:'' (''Error executing code: '' @ msg)
       \<and> local_vars (snd (act rt code s)) = local_vars s"
proof -
  have "is_exception (SyntaxError msg)" and "exc_str (SyntaxError msg) = StrReturns msg"
    by (simp_all add: SyntaxError_def)
  then have "act rt code s =
      (Returns (''Error executing code: '' @ msg),
       restore (sys_stdout s)
         (log (Parsed code) (log StdoutRedirected (s\<lparr>sys_stdout := StringIO\<rparr>))))"
    using assms by (simp add: act_parse_raises handle_printable)
  then show ?thesis
    by (simp add: restore_def log_def)
qed

text \<open>The fragment \<^verbatim>\<open>1 +\<close>, against a scope that binds \<^verbatim>\<open>x\<close>.\<close>

theorem act_syntax_error_witness:
  "ast_parse (demo_runtime (constant_client [])) ''1 +''
     = Some (SyntaxError ''invalid syntax (<unknown>, line 1)'')
   \<and> fst (act (demo_runtime (constant_client [])) ''1 +''
        ((init () 10)\<lparr>local_vars := [''x'' \<mapsto> IntVal 1]\<rparr>))
     = Returns ''Error executing code: invalid syntax (<unknown>, line 1)''
   \<and> local_vars (snd (act (demo_runtime (constant_client [])) ''1 +''
        ((init () 10)\<lparr>local_vars := [''x'' \<mapsto> IntVal 1]\<rparr>)))
     = [''x'' \<mapsto> IntVal 1]"
proof -
  have h: "ast_parse (demo_runtime (constant_client [])) ''1 +''
     = Some (SyntaxError ''invalid syntax (<unknown>, line 1)'')"
    by (simp add: demo_runtime_def demo_parse_def)
  show ?thesis
    using h act_syntax_error [OF h, of "(init () 10)\<lparr>local_vars := [''x'' \<mapsto> IntVal 1]\<rparr>"]
    by simp
qed

text \<open>
  C10, as amended. A fragment that writes to standard output and then raises an instance
  of \<^verbatim>\<open>Exception\<close> whose \<^verbatim>\<open>str\<close> returns the text \<open>msg\<close> gives
  exactly \<^verbatim>\<open>"Error executing code: "\<close> followed by \<open>msg\<close>: the observation is
  made from the message alone, whatever was written before.
\<close>

theorem act_discards_output:
  assumes "ast_parse rt code = None"
      and "exec rt code Map.empty (local_vars s) = Failed output locals' e"
      and "is_exception e"
      and "exc_str e = StrReturns msg"
  shows "fst (act rt code s) = Returns (''Error executing code: '' @ msg)"
  using assms by (simp add: act_failed handle_printable)

theorem act_discards_output_witness:
  "exec (demo_runtime (constant_client []))
        ''print('boom')\<newline>raise ValueError('boom' + chr(10))''
        Map.empty (local_vars (init () 10))
     = Failed ''boom\<newline>'' Map.empty (ValueError ''boom\<newline>'')
   \<and> fst (act (demo_runtime (constant_client []))
        ''print('boom')\<newline>raise ValueError('boom' + chr(10))'' (init () 10))
     = Returns (''Error executing code: '' @ ''boom\<newline>'')"
proof -
  let ?rt = "demo_runtime (constant_client [])"
  let ?code = "''print('boom')\<newline>raise ValueError('boom' + chr(10))''"
  let ?s = "init () 10 :: (pyval, unit) agent"
  have p: "ast_parse ?rt ?code = None"
    by (simp add: demo_runtime_def demo_parse_def)
  have e: "exec ?rt ?code Map.empty (local_vars ?s)
             = Failed ''boom\<newline>'' Map.empty (ValueError ''boom\<newline>'')"
    by (simp add: demo_runtime_def demo_exec_def init_def)
  have c: "is_exception (ValueError ''boom\<newline>'')"
    and m: "exc_str (ValueError ''boom\<newline>'') = StrReturns ''boom\<newline>''"
    by (simp_all add: ValueError_def)
  show ?thesis
    using e act_discards_output [OF p e c m] by simp
qed

text \<open>
  C10 as stated fails in two ways: a fragment that prints and then raises
  \<^verbatim>\<open>KeyboardInterrupt\<close> makes \<^verbatim>\<open>_act\<close> raise instead of returning; and
  when the message of the exception holds the text that was printed, that text does
  appear in the observation.
\<close>

theorem act_discards_output_counterexample:
  "exec (demo_runtime (constant_client [])) ''print(1)\<newline>raise KeyboardInterrupt''
      Map.empty (local_vars (init () 10))
     = Failed ''1\<newline>'' Map.empty KeyboardInterrupt
   \<and> fst (act (demo_runtime (constant_client [])) ''print(1)\<newline>raise KeyboardInterrupt''
        (init () 10))
     = Raises KeyboardInterrupt
   \<and> exec (demo_runtime (constant_client []))
        ''print('boom')\<newline>raise ValueError('boom' + chr(10))''
        Map.empty (local_vars (init () 10))
     = Failed ''boom\<newline>'' Map.empty (ValueError ''boom\<newline>'')
   \<and> fst (act (demo_runtime (constant_client []))
        ''print('boom')\<newline>raise ValueError('boom' + chr(10))'' (init () 10))
     = Returns ''Error executing code: boom\<newline>''
   \<and> str_contains ''boom\<newline>'' ''Error executing code: boom\<newline>''"
  by (simp add: demo_defs act_defs)

subsection \<open>The result of a fragment that does not raise\<close>

text \<open>
  C7, as amended. The result of a fragment that parses and runs to its end without
  raising is read from the capture buffer as the fragment left it. When the buffer holds
  exactly what the fragment wrote: the sentinel
  \<^verbatim>\<open>"Code executed successfully with no output"\<close> when it wrote nothing, and
  exactly the text it wrote, unaltered, otherwise. In general the sentinel for an empty
  buffer, the text held for a non-empty one, and for a buffer that the fragment closed the
  text of the error that \<^verbatim>\<open>getvalue\<close> raises.
\<close>

theorem act_output:
  assumes "ast_parse rt code = None"
      and "exec rt code Map.empty (local_vars s) = Finished written buffer locals'"
  shows "(buffer = Holding written \<longrightarrow> written = [] \<longrightarrow>
            fst (act rt code s) = Returns ''Code executed successfully with no output'')
       \<and> (buffer = Holding written \<longrightarrow> written \<noteq> [] \<longrightarrow>
            fst (act rt code s) = Returns written)
       \<and> (\<forall>text. buffer = Holding text \<longrightarrow>
            fst (act rt code s) =
              Returns (if text = [] then ''Code executed successfully with no output''
                       else text))
       \<and> (buffer = Closed \<longrightarrow>
            fst (act rt code s) = Returns ''Error executing code: I/O operation on closed file'')"
  using assms by (cases buffer) (simp_all add: act_finished act_closed_observation)

theorem act_output_witness:
  "fst (act (demo_runtime (constant_client [])) ''x = 1'' (init () 10))
     = Returns ''Code executed successfully with no output''
   \<and> fst (act (demo_runtime (constant_client [])) ''print(1)'' (init () 10))
     = Returns ''1\<newline>''"
proof -
  let ?rt = "demo_runtime (constant_client [])"
  let ?s = "init () 10 :: (pyval, unit) agent"
  have p1: "ast_parse ?rt ''x = 1'' = None" and p2: "ast_parse ?rt ''print(1)'' = None"
    by (simp_all add: demo_runtime_def demo_parse_def)
  have e1: "exec ?rt ''x = 1'' Map.empty (local_vars ?s)
              = Finished [] (Holding []) [''x'' \<mapsto> IntVal 1]"
    by (simp add: demo_runtime_def demo_exec_def init_def)
  have e2: "exec ?rt ''print(1)'' Map.empty (local_vars ?s)
              = Finished ''1\<newline>'' (Holding ''1\<newline>'') Map.empty"
    by (simp add: demo_runtime_def demo_exec_def init_def)
  show ?thesis
    using act_output [OF p1 e1] act_output [OF p2 e2] by simp
qed

text \<open>
  C7 as stated fails for a fragment that touches the buffer it writes to. One that closes
  \<^verbatim>\<open>sys.stdout\<close> writes nothing and does not raise, and the observation is an
  error text, not the sentinel; one that prints and then truncates
  \<^verbatim>\<open>sys.stdout\<close> wrote a text, and the observation is the sentinel.
\<close>

theorem act_output_counterexample:
  "ast_parse (demo_runtime (constant_client [])) ''import sys\<newline>sys.stdout.close()'' = None
   \<and> exec (demo_runtime (constant_client [])) ''import sys\<newline>sys.stdout.close()''
        Map.empty (local_vars (init () 10))
     = Finished [] Closed [''sys'' \<mapsto> ModuleVal ''sys'']
   \<and> fst (act (demo_runtime (constant_client [])) ''import sys\<newline>sys.stdout.close()''
        (init () 10))
     = Returns ''Error executing code: I/O operation on closed file''
   \<and> exec (demo_runtime (constant_client []))
        ''print(1)\<newline>import sys\<newline>sys.stdout.truncate(0)''
        Map.empty (local_vars (init () 10))
     = Finished ''1\<newline>'' (Holding []) [''sys'' \<mapsto> ModuleVal ''sys'']
   \<and> fst (act (demo_runtime (constant_client []))
        ''print(1)\<newline>import sys\<newline>sys.stdout.truncate(0)'' (init () 10))
     = Returns ''Code executed successfully with no output''"
  by (simp add: demo_defs act_defs)

subsection \<open>The order of the steps of \<^verbatim>\<open>_act\<close>\<close>

text \<open>
  C5, as amended. In every call the redirection of standard output comes first and syntax
  validation second; the fragment is executed only after validation has succeeded (and
  then right after it), and not at all when validation raises.
\<close>

theorem act_order:
  "\<exists>tail. new_events s (snd (act rt code s)) = StdoutRedirected # Parsed code # tail
     \<and> (case ast_parse rt code of
          Some e \<Rightarrow> \<not> list_ex is_execution tail
        | None \<Rightarrow>
            (\<exists>tail'. tail = Executed code Map.empty (local_vars s) # tail'
               \<and> \<not> list_ex is_execution tail'))"
proof (cases "ast_parse rt code")
  case (Some e)
  then show ?thesis
    by (simp add: act_parse_raises new_events_def handle_def restore_def log_def
        split: str_outcome.split)
next
  case None
  then show ?thesis
    by (cases "exec rt code Map.empty (local_vars s)")
      (simp_all add: act_def Let_def new_events_def handle_def
        restore_def log_def split: str_outcome.split outcome.split)
qed

theorem act_order_witness:
  "\<exists>tail. new_events (init () 10)
       (snd (act (demo_runtime (constant_client [])) ''print(1)'' (init () 10)))
     = StdoutRedirected # Parsed ''print(1)''
         # Executed ''print(1)'' Map.empty Map.empty # tail"
  using act_order [of "init () 10" "demo_runtime (constant_client [])" "''print(1)''"]
  by (auto simp: demo_runtime_def demo_parse_def init_def)

text \<open>
  C5 as stated fails: the first thing a call does is redirect standard output; the parse
  comes after it, for a fragment with a syntax error as for one without.
\<close>

theorem act_order_counterexample:
  "new_events (init () 10)
       (snd (act (demo_runtime (constant_client [])) ''1 +'' (init () 10)))
     = [StdoutRedirected, Parsed ''1 +'', StdoutRestored]
   \<and> new_events (init () 10)
       (snd (act (demo_runtime (constant_client [])) ''print(1)'' (init () 10)))
     = [StdoutRedirected, Parsed ''print(1)'', Executed ''print(1)'' Map.empty Map.empty,
        StdoutRestored]"
  by (simp add: demo_defs act_defs new_events_def)

section \<open>The control loop\<close>

subsection \<open>What each operation adds to the log and does to the scope\<close>

lemma model_calls_append: "model_calls (xs @ ys) = model_calls xs + model_calls ys"
  by (simp add: model_calls_def)

lemma model_calls_Cons:
  "model_calls (e # evs) = (if is_model_call e then Suc (model_calls evs) else model_calls evs)"
  by (simp add: model_calls_def)

lemma scope_threaded_append:
  "scope_threaded rt current (xs @ ys) =
     (scope_threaded rt current xs \<and> scope_threaded rt (final_scope rt current xs) ys)"
  by (induction rt current xs rule: scope_threaded.induct) auto

lemma final_scope_append:
  "final_scope rt current (xs @ ys) = final_scope rt (final_scope rt current xs) ys"
  by (induction rt current xs rule: final_scope.induct) auto

lemma new_events_tail: "events s' = events s @ tail \<Longrightarrow> new_events s s' = tail"
  by (simp add: new_events_def)

lemma add_step_keeps:
  "events (add_step kind text s) = events s"
  "local_vars (add_step kind text s) = local_vars s"
  by (simp_all add: add_step_def)

lemma reason_log:
  "events (snd (reason rt task context s)) = events s @ [ModelCalled context]"
  "local_vars (snd (reason rt task context s)) = local_vars s"
  by (simp_all add: reason_def Let_def log_def split: prod.split outcome.split)

lemma act_log:
  "\<exists>tail. events (snd (act rt code s)) = events s @ tail
     \<and> model_calls tail = 0
     \<and> scope_threaded rt (local_vars s) tail
     \<and> local_vars (snd (act rt code s)) = final_scope rt (local_vars s) tail"
proof (cases "ast_parse rt code")
  case (Some e)
  then show ?thesis
    by (simp add: act_parse_raises handle_def restore_def log_def model_calls_def
        split: str_outcome.split)
next
  case None
  then show ?thesis
    by (cases "exec rt code Map.empty (local_vars s)")
      (simp_all add: act_def Let_def handle_def restore_def log_def
        model_calls_def scope_after_def split: str_outcome.split outcome.split)
qed

lemma run_loop_log:
  "\<exists>tail. events (snd (run_loop rt task p n s)) = events s @ tail
     \<and> model_calls tail \<le> n
     \<and> scope_threaded rt (local_vars s) tail
     \<and> local_vars (snd (run_loop rt task p n s)) = final_scope rt (local_vars s) tail"
proof (induction n arbitrary: s)
  case 0
  show ?case by (simp add: model_calls_def)
next
  case (Suc n)
  let ?c = "p @ ''\<newline>\<newline>'' @ format_history s"
  obtain r s1 where r: "reason rt task ?c s = (r, s1)"
    by (cases "reason rt task ?c s")
  have s1: "events s1 = events s @ [ModelCalled ?c]" "local_vars s1 = local_vars s"
    using reason_log [of rt task ?c s] r by simp_all
  have one: "model_calls [ModelCalled ?c :: 'a event] = 1"
    by (simp add: model_calls_def)
  have stop: "\<exists>tail. events s1 = events s @ tail \<and> model_calls tail \<le> Suc n
      \<and> scope_threaded rt (local_vars s) tail
      \<and> local_vars s1 = final_scope rt (local_vars s) tail"
    using s1 one by simp
  show ?case
  proof (cases r)
    case (Raises e)
    with r stop show ?thesis by simp
  next
    case Hangs
    with r stop show ?thesis by simp
  next
    case (Returns tc)
    obtain thought code where tc: "tc = (thought, code)"
      by (cases tc)
    show ?thesis
    proof (cases "str_contains ''FINAL ANSWER:'' thought")
      case True
      with r Returns tc stop show ?thesis
        by (simp add: add_step_keeps)
    next
      case False
      let ?s2 = "add_step THOUGHT thought s1"
      show ?thesis
      proof (cases code)
        case None
        obtain tail where
          "events (snd (run_loop rt task p n ?s2)) = events ?s2 @ tail"
          "model_calls tail \<le> n"
          "scope_threaded rt (local_vars ?s2) tail"
          "local_vars (snd (run_loop rt task p n ?s2)) = final_scope rt (local_vars ?s2) tail"
          using Suc.IH [of ?s2] by blast
        then have
          "events (snd (run_loop rt task p n ?s2)) = events s @ ([ModelCalled ?c] @ tail)
           \<and> model_calls ([ModelCalled ?c] @ tail) \<le> Suc n
           \<and> scope_threaded rt (local_vars s) ([ModelCalled ?c] @ tail)
           \<and> local_vars (snd (run_loop rt task p n ?s2))
               = final_scope rt (local_vars s) ([ModelCalled ?c] @ tail)"
          using s1 one by (simp add: add_step_keeps model_calls_append model_calls_Cons)
        with r Returns tc False None show ?thesis
          by (simp del: append.simps, blast?)
      next
        case (Some c)
        let ?s3 = "add_step ACTION c ?s2"
        obtain ob s4 where a: "act rt c ?s3 = (ob, s4)"
          by (cases "act rt c ?s3")
        obtain t1 where t1:
          "events s4 = events ?s3 @ t1" "model_calls t1 = 0"
          "scope_threaded rt (local_vars ?s3) t1"
          "local_vars s4 = final_scope rt (local_vars ?s3) t1"
          using act_log [of rt c ?s3] a by auto
        have upto: "events s4 = events s @ ([ModelCalled ?c] @ t1)
           \<and> model_calls ([ModelCalled ?c] @ t1) \<le> Suc n
           \<and> scope_threaded rt (local_vars s) ([ModelCalled ?c] @ t1)
           \<and> local_vars s4 = final_scope rt (local_vars s) ([ModelCalled ?c] @ t1)"
          using s1 one t1 by (simp add: add_step_keeps model_calls_append model_calls_Cons)
        show ?thesis
        proof (cases ob)
          case (Raises e)
          with r Returns tc False Some a upto show ?thesis
            by (simp del: append.simps, blast?)
        next
          case Hangs
          with r \<open>r = Returns tc\<close> tc False Some a upto show ?thesis
            by (simp del: append.simps, blast?)
        next
          case (Returns observation)
          let ?s5 = "add_step OBSERVATION observation s4"
          obtain t2 where t2:
            "events (snd (run_loop rt task p n ?s5)) = events ?s5 @ t2"
            "model_calls t2 \<le> n"
            "scope_threaded rt (local_vars ?s5) t2"
            "local_vars (snd (run_loop rt task p n ?s5)) = final_scope rt (local_vars ?s5) t2"
            using Suc.IH [of ?s5] by blast
          have "events (snd (run_loop rt task p n ?s5)) = events s @ ([ModelCalled ?c] @ t1 @ t2)
             \<and> model_calls ([ModelCalled ?c] @ t1 @ t2) \<le> Suc n
             \<and> scope_threaded rt (local_vars s) ([ModelCalled ?c] @ t1 @ t2)
             \<and> local_vars (snd (run_loop rt task p n ?s5))
                 = final_scope rt (local_vars s) ([ModelCalled ?c] @ t1 @ t2)"
            using s1 one t1 t2
            by (simp add: add_step_keeps model_calls_append model_calls_Cons scope_threaded_append
                final_scope_append)
          with r \<open>r = Returns tc\<close> tc False Some a Returns show ?thesis
            by (simp del: append.simps, blast?)
        qed
      qed
    qed
  qed
qed

lemma reason_returns:
  assumes "reason rt task context s = (Returns (thought, code), s1)"
  shows "history s1 = history s" and "local_vars s1 = local_vars s"
    and "events s1 = events s @ [ModelCalled context]"
  using assms
  by (auto simp: reason_def Let_def log_def split: prod.splits outcome.splits)

lemma act_contained_returns:
  assumes "contained rt code (local_vars s)"
  shows "\<exists>observation. fst (act rt code s) = Returns observation"
proof (cases "ast_parse rt code")
  case (Some e)
  with assms have "printable e"
    by (simp add: contained_def raised_def)
  then obtain msg where "is_exception e" and "exc_str e = StrReturns msg"
    by (auto simp: printable_def split: str_outcome.splits)
  with Some show ?thesis
    by (simp add: act_parse_raises handle_printable)
next
  case None
  show ?thesis
  proof (cases "exec rt code Map.empty (local_vars s)")
    case (Finished written buffer locals')
    with None show ?thesis
      by (cases buffer) (simp_all add: act_finished act_closed_observation)
  next
    case (Failed out locals' e)
    with None assms have "printable e"
      by (simp add: contained_def raised_def)
    then obtain msg where "is_exception e" and "exc_str e = StrReturns msg"
      by (auto simp: printable_def split: str_outcome.splits)
    with None Failed show ?thesis
      by (simp add: act_failed handle_printable)
  next
    case Diverged
    with None assms show ?thesis
      by (simp add: contained_def comes_back_def)
  qed
qed

lemma never_final_reason:
  assumes "never_final rt"
  shows "\<exists>thought code s1. reason rt task context s = (Returns (thought, code), s1)
           \<and> \<not> str_contains ''FINAL ANSWER:'' thought
           \<and> (actions_contained rt \<longrightarrow>
                (\<forall>c locals. code = Some c \<longrightarrow> contained rt c locals))"
proof -
  obtain answer client' where g: "get_completion rt (llm_client s) context = (answer, client')"
    by (cases "get_completion rt (llm_client s) context")
  from assms have nf: "case get_completion rt (llm_client s) context of
          (Returns response, client') \<Rightarrow>
            (case split_response response of
               Returns (thought, code) \<Rightarrow> \<not> str_contains ''FINAL ANSWER:'' thought
             | Raises e \<Rightarrow> False
             | Hangs \<Rightarrow> False)
        | (Raises e, client') \<Rightarrow> False
        | (Hangs, client') \<Rightarrow> False"
    by (simp add: never_final_def)
  with g obtain response where a: "answer = Returns response"
    by (cases answer) simp_all
  with g nf obtain thought code where
    sp: "split_response response = Returns (thought, code)"
    and nfin: "\<not> str_contains ''FINAL ANSWER:'' thought"
    by (cases "split_response response") (auto split: prod.splits)
  have "actions_contained rt \<longrightarrow> (\<forall>c locals. code = Some c \<longrightarrow> contained rt c locals)"
    using g a sp unfolding actions_contained_def by blast
  with g a sp nfin show ?thesis
    by (simp add: reason_def Let_def)
qed

lemma run_loop_budget:
  assumes "never_final rt" and "actions_contained rt"
  shows "fst (run_loop rt task p n s) = Returns ''Maximum steps reached without finding solution''
       \<and> (\<exists>tail. events (snd (run_loop rt task p n s)) = events s @ tail
             \<and> model_calls tail = n)"
proof (induction n arbitrary: s)
  case 0
  show ?case by (simp add: model_calls_def)
next
  case (Suc n)
  let ?c = "p @ ''\<newline>\<newline>'' @ format_history s"
  obtain thought code s1 where
    r: "reason rt task ?c s = (Returns (thought, code), s1)"
    and nfin: "\<not> str_contains ''FINAL ANSWER:'' thought"
    and cont: "\<forall>c locals. code = Some c \<longrightarrow> contained rt c locals"
    using never_final_reason [OF assms(1), of task ?c s] assms(2) by blast
  have s1: "events s1 = events s @ [ModelCalled ?c]"
    using reason_log(1) [of rt task ?c s] r by simp
  let ?s2 = "add_step THOUGHT thought s1"
  show ?case
  proof (cases code)
    case None
    obtain tail where
      "fst (run_loop rt task p n ?s2) = Returns ''Maximum steps reached without finding solution''"
      "events (snd (run_loop rt task p n ?s2)) = events ?s2 @ tail" "model_calls tail = n"
      using Suc.IH [of ?s2] by blast
    then have
      "fst (run_loop rt task p n ?s2) = Returns ''Maximum steps reached without finding solution''
       \<and> events (snd (run_loop rt task p n ?s2)) = events s @ ([ModelCalled ?c] @ tail)
       \<and> model_calls ([ModelCalled ?c] @ tail) = Suc n"
      using s1 by (simp add: add_step_keeps model_calls_Cons)
    with r nfin None show ?thesis
      by (simp del: append.simps, blast?)
  next
    case (Some c)
    let ?s3 = "add_step ACTION c ?s2"
    obtain observation where ob: "fst (act rt c ?s3) = Returns observation"
      using act_contained_returns [of rt c ?s3] cont Some by blast
    obtain s4 where a: "act rt c ?s3 = (Returns observation, s4)"
      using ob by (cases "act rt c ?s3") simp
    obtain t1 where t1: "events s4 = events ?s3 @ t1" "model_calls t1 = 0"
      using act_log [of rt c ?s3] a by auto
    let ?s5 = "add_step OBSERVATION observation s4"
    obtain t2 where
      "fst (run_loop rt task p n ?s5) = Returns ''Maximum steps reached without finding solution''"
      "events (snd (run_loop rt task p n ?s5)) = events ?s5 @ t2" "model_calls t2 = n"
      using Suc.IH [of ?s5] by blast
    then have
      "fst (run_loop rt task p n ?s5) = Returns ''Maximum steps reached without finding solution''
       \<and> events (snd (run_loop rt task p n ?s5)) = events s @ ([ModelCalled ?c] @ t1 @ t2)
       \<and> model_calls ([ModelCalled ?c] @ t1 @ t2) = Suc n"
      using s1 t1 by (simp add: add_step_keeps model_calls_Cons model_calls_append)
    with r nfin Some a show ?thesis
      by (simp del: append.simps, blast?)
  qed
qed

lemma demo_runtime_sel:
  "ast_parse (demo_runtime client) = demo_parse"
  "exec (demo_runtime client) = demo_exec"
  "get_completion (demo_runtime client) = client"
  by (simp_all add: demo_runtime_def)

subsection \<open>Termination by a final answer\<close>

text \<open>
  C3. In an iteration whose thought contains \<^verbatim>\<open>"FINAL ANSWER:"\<close>, the loop
  appends exactly one step, of kind \<^verbatim>\<open>FINAL_ANSWER\<close> and holding the thought, and
  returns the thought; the only call made to the outside in that iteration is the one
  model call, so no further model call is made and no code is executed, whether or not the
  response had a code portion; the scope is left as it was.
\<close>

theorem run_final_answer:
  assumes "reason rt task (p @ ''\<newline>\<newline>'' @ format_history s) s = (Returns (thought, code), s1)"
      and "str_contains ''FINAL ANSWER:'' thought"
  shows "fst (run_loop rt task p (Suc n) s) = Returns thought
       \<and> history (snd (run_loop rt task p (Suc n) s))
           = history s @ [\<lparr>type = FINAL_ANSWER, content = thought\<rparr>]
       \<and> new_events s (snd (run_loop rt task p (Suc n) s))
           = [ModelCalled (p @ ''\<newline>\<newline>'' @ format_history s)]
       \<and> local_vars (snd (run_loop rt task p (Suc n) s)) = local_vars s"
  using assms reason_returns [OF assms(1)]
  by (simp add: add_step_def new_events_def)

text \<open>A response with both markers: the run ends at once, and \<^verbatim>\<open>print(1)\<close> is not run.\<close>

theorem run_final_answer_witness:
  "fst (run (demo_runtime scripted_client) ''task''
          (init [''Done. FINAL ANSWER: 42\<newline>ACTION:\<newline>print(1)''] 10))
     = Returns ''Done. FINAL ANSWER: 42''
   \<and> history (snd (run (demo_runtime scripted_client) ''task''
          (init [''Done. FINAL ANSWER: 42\<newline>ACTION:\<newline>print(1)''] 10)))
     = [\<lparr>type = FINAL_ANSWER, content = ''Done. FINAL ANSWER: 42''\<rparr>]
   \<and> new_events (init [''Done. FINAL ANSWER: 42\<newline>ACTION:\<newline>print(1)''] 10)
        (snd (run (demo_runtime scripted_client) ''task''
          (init [''Done. FINAL ANSWER: 42\<newline>ACTION:\<newline>print(1)''] 10)))
     = [ModelCalled (prompt ''task'' @ ''\<newline>\<newline>'')]"
proof -
  let ?rt = "demo_runtime scripted_client"
  let ?s = "init [''Done. FINAL ANSWER: 42\<newline>ACTION:\<newline>print(1)''] 10
              :: (pyval, string list) agent"
  let ?c = "prompt ''task'' @ ''\<newline>\<newline>'' @ format_history ?s"
  have r: "reason ?rt ''task'' ?c ?s
             = (Returns (''Done. FINAL ANSWER: 42'', Some ''print(1)''),
                log (ModelCalled ?c) (?s\<lparr>llm_client := []\<rparr>))"
    by (simp add: reason_def Let_def demo_runtime_def init_def split_response_def
        str_split_def item_def strip_def isspace_def)
  have f: "str_contains ''FINAL ANSWER:'' ''Done. FINAL ANSWER: 42''"
    by simp
  have n: "nat (max_steps ?s) = Suc 9"
    by (simp add: init_def)
  have h: "format_history ?s = []"
    by (simp add: format_history_def init_def)
  show ?thesis
    using run_final_answer [OF r f, of 9] by (simp add: run_def n h) (simp add: init_def)
qed

subsection \<open>Termination by the step budget\<close>

text \<open>
  C4, as amended. No run makes more than \<^verbatim>\<open>max_steps\<close> model calls (none when
  \<^verbatim>\<open>max_steps\<close> is not positive). When the model collaborator always answers and
  never puts \<^verbatim>\<open>"FINAL ANSWER:"\<close> into the thought portion, and every code portion
  it produces runs to an observation (its validation and execution come back and raise at
  most an instance of \<^verbatim>\<open>Exception\<close> whose \<^verbatim>\<open>str\<close> returns), the run
  makes exactly \<^verbatim>\<open>max_steps\<close> iterations, one model call each, and returns
  \<^verbatim>\<open>"Maximum steps reached without finding solution"\<close>.
\<close>

theorem run_budget:
  "model_calls (new_events s (snd (run rt task s))) \<le> nat (max_steps s)
   \<and> (never_final rt \<and> actions_contained rt \<longrightarrow>
        fst (run rt task s) = Returns ''Maximum steps reached without finding solution''
        \<and> model_calls (new_events s (snd (run rt task s))) = nat (max_steps s))"
proof (intro conjI impI)
  obtain tail where "events (snd (run rt task s)) = events s @ tail"
    and "model_calls tail \<le> nat (max_steps s)"
    using run_loop_log [of rt task "prompt task" "nat (max_steps s)" s]
    by (auto simp: run_def)
  then show "model_calls (new_events s (snd (run rt task s))) \<le> nat (max_steps s)"
    by (simp add: new_events_tail)
next
  assume h: "never_final rt \<and> actions_contained rt"
  then show "fst (run rt task s) = Returns ''Maximum steps reached without finding solution''"
    using run_loop_budget [of rt task "prompt task" "nat (max_steps s)" s]
    by (simp add: run_def)
  from h obtain tail where "events (snd (run rt task s)) = events s @ tail"
    and "model_calls tail = nat (max_steps s)"
    using run_loop_budget [of rt task "prompt task" "nat (max_steps s)" s]
    by (auto simp: run_def)
  then show "model_calls (new_events s (snd (run rt task s))) = nat (max_steps s)"
    by (simp add: new_events_tail)
qed

lemma constant_split:
  "split_response ''Still thinking.\<newline>ACTION:\<newline>x = x + 1''
     = Returns (''Still thinking.'', Some ''x = x + 1'')"
  by (simp add: split_response_def str_split_def item_def strip_def isspace_def)

theorem run_budget_witness:
  "never_final (demo_runtime (constant_client ''Still thinking.\<newline>ACTION:\<newline>x = x + 1''))
   \<and> actions_contained (demo_runtime (constant_client ''Still thinking.\<newline>ACTION:\<newline>x = x + 1''))
   \<and> fst (run (demo_runtime (constant_client ''Still thinking.\<newline>ACTION:\<newline>x = x + 1''))
          ''task'' (init () 3))
       = Returns ''Maximum steps reached without finding solution''
   \<and> model_calls (new_events (init () 3)
        (snd (run (demo_runtime (constant_client ''Still thinking.\<newline>ACTION:\<newline>x = x + 1''))
          ''task'' (init () 3)))) = 3"
proof -
  let ?rt = "demo_runtime (constant_client ''Still thinking.\<newline>ACTION:\<newline>x = x + 1'')"
  have nf: "never_final ?rt"
    by (simp add: never_final_def demo_runtime_sel constant_client_def constant_split)
  have c: "contained ?rt ''x = x + 1'' locals" for locals
    by (simp add: contained_def comes_back_def raised_def printable_def demo_runtime_sel
        demo_parse_def demo_exec_def NameError_def TypeError_def
        split: option.split pyval.split)
  have ac: "actions_contained ?rt"
    unfolding actions_contained_def
    by (auto simp: demo_runtime_sel constant_client_def constant_split c)
  have "nat (max_steps (init () 3 :: (pyval, unit) agent)) = 3"
    by (simp add: init_def)
  then show ?thesis
    using nf ac run_budget [of "init () 3" ?rt "''task''"] by simp
qed

text \<open>
  C4 as stated fails: a collaborator that never gives a final answer but whose code
  raises \<^verbatim>\<open>KeyboardInterrupt\<close> ends the run in the first iteration, after one
  model call, with that exception and without the budget message; so does one whose code
  raises an exception with a \<^verbatim>\<open>__str__\<close> that raises.
\<close>

theorem run_budget_counterexample:
  "never_final (demo_runtime (constant_client ''Stop it.\<newline>ACTION:\<newline>raise KeyboardInterrupt''))
   \<and> fst (run (demo_runtime (constant_client ''Stop it.\<newline>ACTION:\<newline>raise KeyboardInterrupt''))
          ''task'' (init () 3))
       = Raises KeyboardInterrupt
   \<and> model_calls (new_events (init () 3)
        (snd (run (demo_runtime (constant_client ''Stop it.\<newline>ACTION:\<newline>raise KeyboardInterrupt''))
          ''task'' (init () 3)))) = 1
   \<and> never_final (demo_runtime (constant_client
          ''Try.\<newline>ACTION:\<newline>class E(Exception):\<newline>    def __str__(self):\<newline>        raise KeyError(0)\<newline>raise E()''))
   \<and> fst (run (demo_runtime (constant_client
          ''Try.\<newline>ACTION:\<newline>class E(Exception):\<newline>    def __str__(self):\<newline>        raise KeyError(0)\<newline>raise E()''))
          ''task'' (init () 3))
       = Raises (KeyError ''0'')"
proof -
  let ?a = "''Stop it.\<newline>ACTION:\<newline>raise KeyboardInterrupt''"
  let ?b = "''Try.\<newline>ACTION:\<newline>class E(Exception):\<newline>    def __str__(self):\<newline>        raise KeyError(0)\<newline>raise E()''"
  have sa: "split_response ?a = Returns (''Stop it.'', Some ''raise KeyboardInterrupt'')"
    by (simp add: split_response_def str_split_def item_def strip_def isspace_def)
  have sb: "split_response ?b = Returns (''Try.'',
      Some ''class E(Exception):\<newline>    def __str__(self):\<newline>        raise KeyError(0)\<newline>raise E()'')"
    by (simp add: split_response_def str_split_def item_def strip_def isspace_def)
  have na: "never_final (demo_runtime (constant_client ?a))"
    by (simp add: never_final_def demo_runtime_sel constant_client_def sa)
  have nb: "never_final (demo_runtime (constant_client ?b))"
    by (simp add: never_final_def demo_runtime_sel constant_client_def sb)
  have n: "nat (max_steps (init () 3 :: (pyval, unit) agent)) = Suc (Suc (Suc 0))"
    by (simp add: init_def)
  have ra: "run (demo_runtime (constant_client ?a)) ''task'' (init () 3) =
     (Raises KeyboardInterrupt,
      snd (act (demo_runtime (constant_client ?a)) ''raise KeyboardInterrupt''
        (add_step ACTION ''raise KeyboardInterrupt'' (add_step THOUGHT ''Stop it.''
          (log (ModelCalled (prompt ''task'' @ ''\<newline>\<newline>'')) (init () 3))))))"
    unfolding run_def n
    by (simp add: reason_def sa demo_runtime_sel constant_client_def act_defs
        demo_parse_def demo_exec_def KeyboardInterrupt_def add_step_def init_def
        format_history_def)
  have ca: "model_calls (new_events (init () 3)
        (snd (run (demo_runtime (constant_client ?a)) ''task'' (init () 3)))) = 1"
    by (simp add: ra) (simp add: act_defs demo_defs new_events_def model_calls_def add_step_def)
  have rb: "fst (run (demo_runtime (constant_client ?b)) ''task'' (init () 3))
      = Raises (KeyError ''0'')"
    unfolding run_def n
    by (simp add: reason_def sb demo_runtime_sel constant_client_def act_defs
        demo_parse_def demo_exec_def KeyError_def add_step_def init_def
        format_history_def)
  show ?thesis
    using na nb ra ca rb by simp
qed

subsection \<open>The scope shared by the executions\<close>





end
